theory Spec2Isabelle
  imports Main "HOL-Library.Word"
begin

unbundle bit_operations_syntax

section \<open>JavaScript values\<close>

text \<open>
  The handlers of \<^verbatim>\<open>blockchainController.js\<close> receive parsed JSON (the request body) and
  read parsed JSON back from the files of \<^verbatim>\<open>cryptoUtils.js\<close>. A JSON value is modelled as it
  is after \<^verbatim>\<open>JSON.parse\<close>. \<open>JNum n\<close> is the number (a double) whose value is the integer \<open>n\<close>;
  fractions and infinities are outside the type. On the safe integers (\<open>safeInteger\<close>, magnitude
  below \<open>2^53\<close>) the addition of 1 and the decimal rendering are exact and the model computes
  them; outside that range both are left to the runtime. The characters of a
  \<open>JStr\<close> stand for the code units of the string. \<open>JObj kvs\<close> is the plain object whose own
  property \<open>k\<close> is \<open>map_of kvs k\<close>.
\<close>

datatype json =
    JNull
  | JBool bool
  | JNum int
  | JStr string
  | JArr "json list"
  | JObj "(string \<times> json) list"

text \<open>
  A value held by a variable of the program: \<^verbatim>\<open>undefined\<close>, a JSON value, or \<open>Native\<close>, a
  built-in function or prototype object reached through the prototype chain (it is truthy
  and has no property of the program's own).
\<close>

datatype jsval = Undefined | Json json | Native

text \<open>What a JavaScript function can throw here.\<close>

datatype error = TypeError | SyntaxError | ReferenceError string | IOError

text \<open>
  The parts of the Node.js runtime that the program calls and the model leaves open:
  \<^item> \<open>sha256 d\<close>: the digest \<^verbatim>\<open>crypto.createHash('sha256').update(d)\<close> computes;
  \<^item> \<open>numberText n\<close>: the text \<^verbatim>\<open>String(n)\<close> of a number that is not a safe integer (the
    shortest digits that read back as the same double, in exponent form from \<^verbatim>\<open>1e21\<close> on);
  \<^item> \<open>addOne n\<close>: the double \<^verbatim>\<open>n + 1\<close> for a number that is not a safe integer (the sum is
    rounded: \<^verbatim>\<open>2**53 + 1\<close> is \<^verbatim>\<open>2**53\<close>);
  \<^item> \<open>builtinMember v k\<close>: the value of \<^verbatim>\<open>v[k]\<close> when \<open>v\<close> is an array, a string, a number
    or a boolean (own indices and \<^verbatim>\<open>length\<close>, and the methods of the prototypes, which
    depend on the version of the engine);
  \<^item> \<open>stringExceeds8 s\<close>: the comparison \<^verbatim>\<open>s > 8\<close> for a string \<open>s\<close> (its conversion to a
    number).
\<close>

record runtime =
  sha256 :: "string \<Rightarrow> 256 word"
  numberText :: "int \<Rightarrow> string"
  addOne :: "int \<Rightarrow> int"
  builtinMember :: "json \<Rightarrow> string \<Rightarrow> jsval"
  stringExceeds8 :: "string \<Rightarrow> bool"

text \<open>Truthiness: what \<^verbatim>\<open>!x\<close> and \<^verbatim>\<open>if (x)\<close> test.\<close>

fun truthy :: "jsval \<Rightarrow> bool" where
  "truthy Undefined = False"
| "truthy (Json JNull) = False"
| "truthy (Json (JBool b)) = b"
| "truthy (Json (JNum n)) = (n \<noteq> 0)"
| "truthy (Json (JStr s)) = (s \<noteq> [])"
| "truthy (Json (JArr xs)) = True"
| "truthy (Json (JObj kvs)) = True"
| "truthy Native = True"

text \<open>A field of a request body: absent (\<^verbatim>\<open>undefined\<close> after destructuring) or a JSON value.\<close>

fun fieldVal :: "json option \<Rightarrow> jsval" where
  "fieldVal None = Undefined"
| "fieldVal (Some v) = Json v"

text \<open>\<^verbatim>\<open>Number.isSafeInteger\<close>: the integers of magnitude at most \<open>2^53 - 1\<close>.\<close>

definition safeInteger :: "int \<Rightarrow> bool" where
  "safeInteger n = (\<bar>n\<bar> < 2 ^ 53)"

text \<open>The decimal rendering of an integer, as \<^verbatim>\<open>String(n)\<close> gives it for a safe integer.\<close>

definition digitChar :: "nat \<Rightarrow> char" where
  "digitChar d = ''0123456789'' ! (d mod 10)"

fun showNat :: "nat \<Rightarrow> string" where
  "showNat n = (if n < 10 then [digitChar n] else showNat (n div 10) @ [digitChar (n mod 10)])"

declare showNat.simps [simp del]

definition showInt :: "int \<Rightarrow> string" where
  "showInt i = (if i < 0 then CHR ''-'' # showNat (nat (- i)) else showNat (nat i))"

text \<open>\<^verbatim>\<open>String(n)\<close> for every number of the model.\<close>

definition numberString :: "runtime \<Rightarrow> int \<Rightarrow> string" where
  "numberString rt n = (if safeInteger n then showInt n else numberText rt n)"

text \<open>
  \<^verbatim>\<open>ToString\<close>, which a template literal applies to each substitution. An array is joined
  with commas, \<^verbatim>\<open>null\<close> elements giving the empty string. A plain object gives
  \<^verbatim>\<open>[object Object]\<close> through \<^verbatim>\<open>Object.prototype.toString\<close>; when it has an own property
  \<^verbatim>\<open>toString\<close> (which, coming from JSON, is not callable) the conversion throws a TypeError.
\<close>

fun toString :: "runtime \<Rightarrow> json \<Rightarrow> error + string"
  and elemString :: "runtime \<Rightarrow> json \<Rightarrow> error + string"
  and joinElems :: "runtime \<Rightarrow> json list \<Rightarrow> error + string" where
  "toString rt JNull = Inr ''null''"
| "toString rt (JBool b) = Inr (if b then ''true'' else ''false'')"
| "toString rt (JNum n) = Inr (numberString rt n)"
| "toString rt (JStr s) = Inr s"
| "toString rt (JArr xs) = joinElems rt xs"
| "toString rt (JObj kvs) =
     (if ''toString'' \<in> set (map fst kvs) then Inl TypeError else Inr ''[object Object]'')"
| "elemString rt JNull = Inr []"
| "elemString rt (JBool b) = toString rt (JBool b)"
| "elemString rt (JNum n) = toString rt (JNum n)"
| "elemString rt (JStr s) = toString rt (JStr s)"
| "elemString rt (JArr xs) = toString rt (JArr xs)"
| "elemString rt (JObj kvs) = toString rt (JObj kvs)"
| "joinElems rt [] = Inr []"
| "joinElems rt [x] = elemString rt x"
| "joinElems rt (x # y # ys) =
     (case elemString rt x of
        Inl e \<Rightarrow> Inl e
      | Inr s \<Rightarrow>
          (case joinElems rt (y # ys) of Inl e \<Rightarrow> Inl e | Inr t \<Rightarrow> Inr (s @ '','' @ t)))"

fun fieldString :: "runtime \<Rightarrow> json option \<Rightarrow> error + string" where
  "fieldString rt None = Inr ''undefined''"
| "fieldString rt (Some v) = toString rt v"

text \<open>\<^verbatim>\<open>digest('hex')\<close>: the 32 bytes of the digest as 64 lower-case hexadecimal digits.\<close>

definition hexChar :: "nat \<Rightarrow> char" where
  "hexChar d = ''0123456789abcdef'' ! (d mod 16)"

definition hex :: "256 word \<Rightarrow> string" where
  "hex w = map (\<lambda>i. hexChar (unat (drop_bit (4 * (63 - i)) w AND 15))) [0..<64]"

section \<open>cryptoUtils.js\<close>

subsection \<open>verifySignature\<close>

text \<open>
  \<^verbatim>\<open>const data = `${sender}${recipient}${amt}${nonce}`;\<close> The substitutions are converted
  from left to right; the first conversion that throws ends the evaluation.
\<close>

definition signedData ::
  "runtime \<Rightarrow> json option \<Rightarrow> json option \<Rightarrow> json option \<Rightarrow> json option
     \<Rightarrow> error + string" where
  "signedData rt sender recipient amt nonce =
     (case fieldString rt sender of Inl e \<Rightarrow> Inl e | Inr s \<Rightarrow>
      case fieldString rt recipient of Inl e \<Rightarrow> Inl e | Inr r \<Rightarrow>
      case fieldString rt amt of Inl e \<Rightarrow> Inl e | Inr a \<Rightarrow>
      case fieldString rt nonce of Inl e \<Rightarrow> Inl e | Inr n \<Rightarrow> Inr (s @ r @ a @ n))"

text \<open>
  \<^verbatim>\<open>return hash === sign\<close>: \<open>hash\<close> is a string, so the strict equality holds exactly when
  \<open>sign\<close> is that string.
\<close>

definition verifySignature ::
  "runtime \<Rightarrow> json option \<Rightarrow> json option \<Rightarrow> json option \<Rightarrow> json option \<Rightarrow> json option
     \<Rightarrow> error + bool" where
  "verifySignature rt sender recipient amt nonce sign =
     (case signedData rt sender recipient amt nonce of
        Inl e \<Rightarrow> Inl e
      | Inr d \<Rightarrow> (let hash = hex (sha256 rt d) in Inr (sign = Some (JStr hash))))"

text \<open>
  What anyone holding the four public fields can compute: the digest of their concatenation.
\<close>

definition publicDigest ::
  "runtime \<Rightarrow> json option \<Rightarrow> json option \<Rightarrow> json option \<Rightarrow> json option \<Rightarrow> json option" where
  "publicDigest rt sender recipient amt nonce =
     (case signedData rt sender recipient amt nonce of
        Inl e \<Rightarrow> None
      | Inr d \<Rightarrow> Some (JStr (hex (sha256 rt d))))"

subsection \<open>The files of the node\<close>

text \<open>
  \<^verbatim>\<open>STATE_FILE\<close> and \<^verbatim>\<open>MEMPOOL_FILE\<close> are read with \<^verbatim>\<open>JSON.parse(fs.readFileSync(..))\<close>. The
  text of a file is represented by what that expression makes of it: \<open>Unreadable\<close> when
  \<^verbatim>\<open>readFileSync\<close> throws, \<open>EmptyText\<close> and \<open>Malformed\<close> when \<^verbatim>\<open>JSON.parse\<close> throws a
  SyntaxError (the empty text is not JSON), \<open>Wellformed v\<close> when it returns \<open>v\<close>. A file that
  does not exist is \<open>None\<close>. \<^verbatim>\<open>fs.writeFileSync\<close> throws where the file cannot be written
  (a missing directory, a read-only disk): \<open>stateWritable\<close>, \<open>mempoolWritable\<close>.
\<close>

datatype content = Unreadable | EmptyText | Malformed | Wellformed json

datatype path = STATE_FILE | MEMPOOL_FILE

text \<open>
  An entry of the peer directory, with the fields \<^verbatim>\<open>registerNode\<close> stores:
  \<^verbatim>\<open>const newNode = { ip, provided_port, public_key }\<close>.
\<close>

datatype peerNode =
  PeerNode (node_ip: string) (node_provided_port: "json option") (node_public_key: "json option")

text \<open>
  The calls the handlers make to the modules that are not among the sources
  (\<^verbatim>\<open>networkUtils.js\<close>, \<^verbatim>\<open>fileUtils.js\<close>), recorded in the order they are made.
\<close>

datatype call =
    BroadcastTransaction json
  | SavePeerNodes "peerNode list"
  | SyncPeerDataWithOtherNodes "peerNode list"

record world =
  stateFile :: "content option"
  mempoolFile :: "content option"
  stateWritable :: bool
  mempoolWritable :: bool
  peerStore :: "peerNode list"
  calls :: "call list"

fun fileAt :: "world \<Rightarrow> path \<Rightarrow> content option" where
  "fileAt w STATE_FILE = stateFile w"
| "fileAt w MEMPOOL_FILE = mempoolFile w"

fun writableAt :: "world \<Rightarrow> path \<Rightarrow> bool" where
  "writableAt w STATE_FILE = stateWritable w"
| "writableAt w MEMPOOL_FILE = mempoolWritable w"

fun putFile :: "world \<Rightarrow> path \<Rightarrow> content \<Rightarrow> world" where
  "putFile w STATE_FILE c = w\<lparr>stateFile := Some c\<rparr>"
| "putFile w MEMPOOL_FILE c = w\<lparr>mempoolFile := Some c\<rparr>"

definition writeFileSync :: "world \<Rightarrow> path \<Rightarrow> content \<Rightarrow> (error + unit) \<times> world" where
  "writeFileSync w p c = (if writableAt w p then (Inr (), putFile w p c) else (Inl IOError, w))"

fun parseFile :: "content option \<Rightarrow> error + json" where
  "parseFile None = Inl IOError"
| "parseFile (Some Unreadable) = Inl IOError"
| "parseFile (Some EmptyText) = Inl SyntaxError"
| "parseFile (Some Malformed) = Inl SyntaxError"
| "parseFile (Some (Wellformed v)) = Inr v"

text \<open>
  \<^verbatim>\<open>function ensureFileExists(filePath, initialContent = '[]')\<close>: the write is not inside any
  \<^verbatim>\<open>try\<close>, so its error reaches the caller.
\<close>

definition ensureFileExists :: "world \<Rightarrow> path \<Rightarrow> content \<Rightarrow> (error + unit) \<times> world" where
  "ensureFileExists w filePath initialContent =
     (if fileAt w filePath = None then writeFileSync w filePath initialContent else (Inr (), w))"

subsection \<open>loadBlockchainState\<close>

text \<open>
  \<^verbatim>\<open>ensureFileExists(STATE_FILE, '{}')\<close> runs before the \<^verbatim>\<open>try\<close>; the \<^verbatim>\<open>catch\<close> logs the
  error and returns \<^verbatim>\<open>{}\<close>.
\<close>

definition loadBlockchainState :: "world \<Rightarrow> (error + json) \<times> world" where
  "loadBlockchainState w =
     (case ensureFileExists w STATE_FILE (Wellformed (JObj [])) of
        (Inl e, w') \<Rightarrow> (Inl e, w')
      | (Inr u, w') \<Rightarrow>
          (case parseFile (fileAt w' STATE_FILE) of
             Inl e \<Rightarrow> (Inr (JObj []), w')
           | Inr v \<Rightarrow> (Inr v, w')))"

subsection \<open>verifyNonce\<close>

text \<open>
  The names \<^verbatim>\<open>Object.prototype\<close> gives every plain object (V8): a lookup of one of them that
  finds no own property finds the built-in.
\<close>

definition objectPrototype :: "string list" where
  "objectPrototype =
     [''constructor'', ''__defineGetter__'', ''__defineSetter__'', ''hasOwnProperty'',
      ''__lookupGetter__'', ''__lookupSetter__'', ''isPrototypeOf'', ''propertyIsEnumerable'',
      ''toString'', ''valueOf'', ''__proto__'', ''toLocaleString'']"

text \<open>\<^verbatim>\<open>obj[key]\<close>: a TypeError on \<^verbatim>\<open>null\<close>; the key is converted to a string.\<close>

fun lookup :: "runtime \<Rightarrow> json \<Rightarrow> string \<Rightarrow> jsval" where
  "lookup rt (JObj kvs) k =
     (case map_of kvs k of
        Some v \<Rightarrow> Json v
      | None \<Rightarrow> if k \<in> set objectPrototype then Native else Undefined)"
| "lookup rt v k = builtinMember rt v k"

definition getProperty :: "runtime \<Rightarrow> json \<Rightarrow> json option \<Rightarrow> error + jsval" where
  "getProperty rt obj key =
     (case obj of
        JNull \<Rightarrow> Inl TypeError
      | _ \<Rightarrow> (case fieldString rt key of Inl e \<Rightarrow> Inl e | Inr k \<Rightarrow> Inr (lookup rt obj k)))"

text \<open>
  \<^verbatim>\<open>account.nonce\<close>: the own property of a plain object; no array, string, number, boolean
  or built-in has a property of that name.
\<close>

fun nonceOf :: "jsval \<Rightarrow> error + json option" where
  "nonceOf Undefined = Inl TypeError"
| "nonceOf (Json JNull) = Inl TypeError"
| "nonceOf (Json (JObj kvs)) = Inr (map_of kvs ''nonce'')"
| "nonceOf v = Inr None"

text \<open>
  \<^verbatim>\<open>x + 1\<close>: a number, \<^verbatim>\<open>NaN\<close>, or a string when \<open>x\<close> is a string, an array or an object
  (concatenation). The sum of doubles is the exact \<open>n + 1\<close> for a safe integer \<open>n\<close>.
\<close>

datatype prim = NaN | Num int | Str string

fun plusOne :: "runtime \<Rightarrow> json option \<Rightarrow> error + prim" where
  "plusOne rt None = Inr NaN"
| "plusOne rt (Some JNull) = Inr (Num 1)"
| "plusOne rt (Some (JBool b)) = Inr (Num (if b then 2 else 1))"
| "plusOne rt (Some (JNum n)) = Inr (Num (if safeInteger n then n + 1 else addOne rt n))"
| "plusOne rt (Some (JStr s)) = Inr (Str (s @ ''1''))"
| "plusOne rt (Some (JArr xs)) =
     (case toString rt (JArr xs) of Inl e \<Rightarrow> Inl e | Inr s \<Rightarrow> Inr (Str (s @ ''1'')))"
| "plusOne rt (Some (JObj kvs)) =
     (case toString rt (JObj kvs) of Inl e \<Rightarrow> Inl e | Inr s \<Rightarrow> Inr (Str (s @ ''1'')))"

text \<open>\<^verbatim>\<open>nonce === p\<close> for a request field and a primitive.\<close>

fun strictEquals :: "json option \<Rightarrow> prim \<Rightarrow> bool" where
  "strictEquals (Some (JNum n)) (Num m) = (n = m)"
| "strictEquals (Some (JStr s)) (Str t) = (s = t)"
| "strictEquals x p = False"

definition verifyNonce ::
  "runtime \<Rightarrow> world \<Rightarrow> json option \<Rightarrow> json option \<Rightarrow> (error + bool) \<times> world" where
  "verifyNonce rt w sender nonce =
     (case loadBlockchainState w of
        (Inl e, w') \<Rightarrow> (Inl e, w')
      | (Inr state, w') \<Rightarrow>
          (case getProperty rt state sender of
             Inl e \<Rightarrow> (Inl e, w')
           | Inr account \<Rightarrow>
               if \<not> truthy account then (Inr False, w')
               else (case nonceOf account of
                       Inl e \<Rightarrow> (Inl e, w')
                     | Inr n \<Rightarrow>
                         (case plusOne rt n of
                            Inl e \<Rightarrow> (Inl e, w')
                          | Inr p \<Rightarrow> (Inr (strictEquals nonce p), w')))))"

subsection \<open>addToMempool, isMempoolFull\<close>

text \<open>
  \<^verbatim>\<open>mempool.push(transaction)\<close> works on an array only: on any other parsed value it throws
  a TypeError, which the \<^verbatim>\<open>catch\<close> turns into \<^verbatim>\<open>false\<close>, as it does a failed read or write.
  The array written with \<^verbatim>\<open>JSON.stringify\<close> is read back as it was.
\<close>

definition addToMempool :: "world \<Rightarrow> json \<Rightarrow> (error + bool) \<times> world" where
  "addToMempool w transaction =
     (case ensureFileExists w MEMPOOL_FILE (Wellformed (JArr [])) of
        (Inl e, w') \<Rightarrow> (Inl e, w')
      | (Inr u, w') \<Rightarrow>
          (case parseFile (fileAt w' MEMPOOL_FILE) of
             Inl e \<Rightarrow> (Inr False, w')
           | Inr (JArr mempool) \<Rightarrow>
               (case writeFileSync w' MEMPOOL_FILE (Wellformed (JArr (mempool @ [transaction]))) of
                  (Inl e, w'') \<Rightarrow> (Inr False, w'')
                | (Inr u', w'') \<Rightarrow> (Inr True, w''))
           | Inr other \<Rightarrow> (Inr False, w')))"

text \<open>\<^verbatim>\<open>mempool.length\<close>.\<close>

fun lengthOf :: "json \<Rightarrow> error + json option" where
  "lengthOf JNull = Inl TypeError"
| "lengthOf (JArr xs) = Inr (Some (JNum (int (length xs))))"
| "lengthOf (JStr s) = Inr (Some (JNum (int (length s))))"
| "lengthOf (JObj kvs) = Inr (map_of kvs ''length'')"
| "lengthOf v = Inr None"

text \<open>\<^verbatim>\<open>x > 8\<close>; \<open>None\<close> stands for a thrown TypeError.\<close>

fun exceeds8 :: "runtime \<Rightarrow> json option \<Rightarrow> bool option" where
  "exceeds8 rt None = Some False"
| "exceeds8 rt (Some JNull) = Some False"
| "exceeds8 rt (Some (JBool b)) = Some False"
| "exceeds8 rt (Some (JNum n)) = Some (n > 8)"
| "exceeds8 rt (Some (JStr s)) = Some (stringExceeds8 rt s)"
| "exceeds8 rt (Some (JArr xs)) =
     (case toString rt (JArr xs) of
        Inl e \<Rightarrow> None
      | Inr s \<Rightarrow> Some (stringExceeds8 rt s))"
| "exceeds8 rt (Some (JObj kvs)) =
     (case toString rt (JObj kvs) of
        Inl e \<Rightarrow> None
      | Inr s \<Rightarrow> Some (stringExceeds8 rt s))"

definition isMempoolFull :: "runtime \<Rightarrow> world \<Rightarrow> (error + bool) \<times> world" where
  "isMempoolFull rt w =
     (case ensureFileExists w MEMPOOL_FILE (Wellformed (JArr [])) of
        (Inl e, w') \<Rightarrow> (Inl e, w')
      | (Inr u, w') \<Rightarrow>
          (case parseFile (fileAt w' MEMPOOL_FILE) of
             Inl e \<Rightarrow> (Inr False, w')
           | Inr mempool \<Rightarrow>
               (case lengthOf mempool of
                  Inl e \<Rightarrow> (Inr False, w')
                | Inr l \<Rightarrow>
                    (case exceeds8 rt l of
                       None \<Rightarrow> (Inr False, w')
                     | Some b \<Rightarrow> (Inr b, w')))))"

subsection \<open>The stubs\<close>

text \<open>
  \<^verbatim>\<open>clearMempool\<close> has an empty body. \<^verbatim>\<open>getBalanceByAddress\<close> returns the constant of its
  body: \<^verbatim>\<open>const balance = 0; // CPP function\<close>.
\<close>

definition clearMempool :: "world \<Rightarrow> world" where
  "clearMempool w = w"

definition getBalanceByAddress :: "string \<Rightarrow> json" where
  "getBalanceByAddress address = (let balance = JNum 0 in balance)"

section \<open>blockchainController.js\<close>

datatype response = Response nat json

definition errorBody :: "string \<Rightarrow> json" where
  "errorBody msg = JObj [(''error'', JStr msg)]"

definition messageBody :: "string \<Rightarrow> json" where
  "messageBody msg = JObj [(''message'', JStr msg)]"

text \<open>\<^verbatim>\<open>!x\<close>\<close>

definition falsy :: "json option \<Rightarrow> bool" where
  "falsy x = (\<not> truthy (fieldVal x))"

text \<open>
  An object literal of request fields, as JSON carries it: a field that is \<^verbatim>\<open>undefined\<close> is
  left out.
\<close>

fun object :: "(string \<times> json option) list \<Rightarrow> (string \<times> json) list" where
  "object [] = []"
| "object ((k, None) # kvs) = object kvs"
| "object ((k, Some v) # kvs) = (k, v) # object kvs"

text \<open>
  Modelled from the spec: \<^verbatim>\<open>broadcastTransaction\<close> of \<^verbatim>\<open>networkUtils.js\<close> is not among the
  sources; the gossip collaborator is fire-and-forget and never fails its caller.
\<close>

definition broadcastTransaction :: "world \<Rightarrow> json \<Rightarrow> world" where
  "broadcastTransaction w transaction = w\<lparr>calls := calls w @ [BroadcastTransaction transaction]\<rparr>"

subsection \<open>submitTxn\<close>

text \<open>
  The handler is \<^verbatim>\<open>async\<close>: what it throws rejects its promise and no response is sent by
  it (\<open>Inl\<close>). \<^verbatim>\<open>executeMempool\<close> and \<^verbatim>\<open>addBlockToChain\<close> are not among the names the
  controller imports, so the call \<^verbatim>\<open>executeMempool()\<close> in the branch of a full mempool
  throws a ReferenceError before \<^verbatim>\<open>mineBlock\<close>, \<^verbatim>\<open>broadcastBlock\<close> or \<^verbatim>\<open>clearMempool\<close> run.
\<close>

definition submitTxn ::
  "runtime \<Rightarrow> world \<Rightarrow> json option \<Rightarrow> json option \<Rightarrow> json option \<Rightarrow> json option \<Rightarrow> json option
     \<Rightarrow> (error + response) \<times> world" where
  "submitTxn rt w sender recipient amt nonce sign =
     (if falsy sender \<or> falsy recipient \<or> falsy amt \<or> falsy nonce \<or> falsy sign then
        (Inr (Response 400
           (errorBody ''All fields (sender, recipient, amt, nonce, sign) are required'')), w)
      else
        case verifySignature rt sender recipient amt nonce sign of
          Inl e \<Rightarrow> (Inl e, w)
        | Inr isSignatureValid \<Rightarrow>
            if \<not> isSignatureValid then (Inr (Response 400 (errorBody ''Invalid signature'')), w)
            else
              (case verifyNonce rt w sender nonce of
                 (Inl e, w1) \<Rightarrow> (Inl e, w1)
               | (Inr isNonceValid, w1) \<Rightarrow>
                   if \<not> isNonceValid then (Inr (Response 400 (errorBody ''Invalid nonce'')), w1)
                   else
                     (let transaction =
                            JObj (object [(''sender'', sender), (''recipient'', recipient),
                                          (''amt'', amt), (''nonce'', nonce), (''sign'', sign)]);
                          w2 = broadcastTransaction w1 transaction
                      in case addToMempool w2 transaction of
                           (Inl e, w3) \<Rightarrow> (Inl e, w3)
                         | (Inr addedToMempool, w3) \<Rightarrow>
                             if \<not> addedToMempool then
                               (Inr (Response 500
                                  (errorBody ''Failed to add transaction to mempool'')), w3)
                             else
                               (case isMempoolFull rt w3 of
                                  (Inl e, w4) \<Rightarrow> (Inl e, w4)
                                | (Inr full, w4) \<Rightarrow>
                                    if full then (Inl (ReferenceError ''executeMempool''), w4)
                                    else
                                      (Inr (Response 200
                                         (JObj [(''message'', JStr ''Transaction submitted successfully''),
                                                (''transaction'', transaction)])), w4)))))"

subsection \<open>checkBalanceByAdd\<close>

text \<open>\<^verbatim>\<open>address\<close> is a route parameter, a string.\<close>

definition checkBalanceByAdd :: "runtime \<Rightarrow> world \<Rightarrow> string \<Rightarrow> (error + response) \<times> world" where
  "checkBalanceByAdd rt w address =
     (case loadBlockchainState w of
        (Inl e, w') \<Rightarrow> (Inl e, w')
      | (Inr state, w') \<Rightarrow>
          (case getProperty rt state (Some (JStr address)) of
             Inl e \<Rightarrow> (Inl e, w')
           | Inr account \<Rightarrow>
               if \<not> truthy account then
                 (Inr (Response 404 (errorBody ''Address not found in blockchain state'')), w')
               else
                 (Inr (Response 200
                    (JObj [(''address'', JStr address),
                           (''balance'', getBalanceByAddress address)])), w')))"

subsection \<open>registerNode\<close>

text \<open>
  \<^verbatim>\<open>verifyNodeSignature\<close> (\<^verbatim>\<open>middlewares/nodeAuth.js\<close>) and \<^verbatim>\<open>pingNode\<close>
  (\<^verbatim>\<open>nodeController.js\<close>) are not among the sources: they are parameters, taken by the
  truthiness of what they return.
\<close>

record collaborators =
  verifyNodeSignature :: "string \<Rightarrow> json option \<Rightarrow> json option \<Rightarrow> json option \<Rightarrow> bool"
  pingNode :: "string \<Rightarrow> json option \<Rightarrow> bool"

text \<open>
  Modelled from the spec: \<^verbatim>\<open>loadPeerNodes\<close> and \<^verbatim>\<open>savePeerNodes\<close> of \<^verbatim>\<open>fileUtils.js\<close> and
  \<^verbatim>\<open>syncPeerDataWithOtherNodes\<close> of \<^verbatim>\<open>networkUtils.js\<close> are not among the sources. The Peer
  Directory Store is a persisted ordered sequence of peer records with simple load and save
  semantics; the propagation to the peers is best-effort and never fails the registration.
\<close>

definition loadPeerNodes :: "world \<Rightarrow> peerNode list" where
  "loadPeerNodes w = peerStore w"

definition savePeerNodes :: "world \<Rightarrow> peerNode list \<Rightarrow> world" where
  "savePeerNodes w peerNodes =
     w\<lparr>peerStore := peerNodes, calls := calls w @ [SavePeerNodes peerNodes]\<rparr>"

definition syncPeerDataWithOtherNodes :: "world \<Rightarrow> peerNode list \<Rightarrow> world" where
  "syncPeerDataWithOtherNodes w peerNodes =
     w\<lparr>calls := calls w @ [SyncPeerDataWithOtherNodes peerNodes]\<rparr>"

text \<open>
  \<^verbatim>\<open>a === b\<close> for a stored field and a request field: primitives by value; two arrays or
  objects are never the same object.
\<close>

fun strictEq :: "json option \<Rightarrow> json option \<Rightarrow> bool" where
  "strictEq None None = True"
| "strictEq (Some JNull) (Some JNull) = True"
| "strictEq (Some (JBool a)) (Some (JBool b)) = (a = b)"
| "strictEq (Some (JNum a)) (Some (JNum b)) = (a = b)"
| "strictEq (Some (JStr a)) (Some (JStr b)) = (a = b)"
| "strictEq x y = False"

text \<open>
  \<^verbatim>\<open>peerNodes.some(node => node.public_key === public_key || (node => node.ip === ip && node.port === provided_port))\<close>:
  the right operand of \<^verbatim>\<open>||\<close> is an arrow function, a value that is never called; \<^verbatim>\<open>some\<close>
  tests the truthiness of the result, and a function is truthy.
\<close>

definition nodeExists :: "peerNode list \<Rightarrow> json option \<Rightarrow> bool" where
  "nodeExists peerNodes public_key =
     list_ex (\<lambda>node. strictEq (node_public_key node) public_key \<or> truthy Native) peerNodes"

definition registerNode ::
  "collaborators \<Rightarrow> world \<Rightarrow> string \<Rightarrow> json option \<Rightarrow> json option \<Rightarrow> json option
     \<Rightarrow> (error + response) \<times> world" where
  "registerNode co w ip provided_port public_key sign =
     (let isValidSignature = verifyNodeSignature co ip provided_port sign public_key in
      if \<not> isValidSignature then (Inr (Response 403 (messageBody ''Invalid signature'')), w)
      else
        (let isNodeActive = pingNode co ip provided_port in
         if \<not> isNodeActive then
           (Inr (Response 400 (messageBody ''Node verification failed'')), w)
         else
           (let peerNodes = loadPeerNodes w in
            if nodeExists peerNodes public_key then
              (Inr (Response 400 (messageBody ''Node already exists'')), w)
            else
              (let newNode = PeerNode ip provided_port public_key;
                   peerNodes' = peerNodes @ [newNode];
                   w1 = savePeerNodes w peerNodes';
                   w2 = syncPeerDataWithOtherNodes w1 peerNodes'
               in (Inr (Response 200 (messageBody ''Node registered successfully'')), w2)))))"

section \<open>Requests in succession, and typed transactions\<close>

text \<open>
  The body of a \<^verbatim>\<open>POST /transactions\<close> request: the five fields \<^verbatim>\<open>submitTxn\<close> destructures.
  Requests handled one after the other thread the files of the node through the handler.
\<close>

type_synonym txnBody =
  "json option \<times> json option \<times> json option \<times> json option \<times> json option"

fun submitAll :: "runtime \<Rightarrow> world \<Rightarrow> txnBody list \<Rightarrow> (error + response) list \<times> world" where
  "submitAll rt w [] = ([], w)"
| "submitAll rt w ((sender, recipient, amt, nonce, sign) # reqs) =
     (case submitTxn rt w sender recipient amt nonce sign of
        (res, w') \<Rightarrow> (case submitAll rt w' reqs of (ress, w'') \<Rightarrow> (res # ress, w'')))"

text \<open>
  A transaction as the data model of the specification types it: sender and recipient
  addresses, a numeric amount and a numeric nonce. \<open>signedBody\<close> is the request that carries
  it with the digest of its fields as \<^verbatim>\<open>sign\<close>, \<open>transactionOf\<close> the object the handler
  builds from that request, \<open>accepted\<close> the handler's answer of success.
\<close>

type_synonym transfer = "string \<times> string \<times> int \<times> int"

fun signedBody :: "runtime \<Rightarrow> transfer \<Rightarrow> txnBody" where
  "signedBody rt (s, r, a, m) =
     (Some (JStr s), Some (JStr r), Some (JNum a), Some (JNum m),
      Some (JStr (hex (sha256 rt (s @ r @ numberString rt a @ numberString rt m)))))"

fun transactionOf :: "runtime \<Rightarrow> transfer \<Rightarrow> json" where
  "transactionOf rt (s, r, a, m) =
     JObj [(''sender'', JStr s), (''recipient'', JStr r), (''amt'', JNum a), (''nonce'', JNum m),
           (''sign'', JStr (hex (sha256 rt (s @ r @ numberString rt a @ numberString rt m))))]"

definition accepted :: "runtime \<Rightarrow> transfer \<Rightarrow> error + response" where
  "accepted rt t =
     Inr (Response 200
       (JObj [(''message'', JStr ''Transaction submitted successfully''),
              (''transaction'', transactionOf rt t)]))"

text \<open>
  A transfer is valid against a ledger state when its fields are present and truthy, its
  numbers and the nonce before its own are safe integers, and the sender's account holds
  the nonce just below the transfer's.
\<close>

fun validAgainst :: "(string \<times> json) list \<Rightarrow> transfer \<Rightarrow> bool" where
  "validAgainst st (s, r, a, m) =
     (s \<noteq> [] \<and> r \<noteq> [] \<and> a \<noteq> 0 \<and> m \<noteq> 0 \<and>
      safeInteger a \<and> safeInteger m \<and> safeInteger (m - 1) \<and>
      (case map_of st s of
         Some (JObj account) \<Rightarrow> map_of account ''nonce'' = Some (JNum (m - 1))
       | _ \<Rightarrow> False))"

text \<open>
  A node whose state file holds the ledger \<open>st\<close> and whose mempool file holds the array
  \<open>mempool\<close>, both writable, with an empty peer directory.
\<close>

definition nodeWith :: "(string \<times> json) list \<Rightarrow> json list \<Rightarrow> world" where
  "nodeWith st mempool =
     \<lparr>stateFile = Some (Wellformed (JObj st)), mempoolFile = Some (Wellformed (JArr mempool)),
      stateWritable = True, mempoolWritable = True, peerStore = [], calls = []\<rparr>"

text \<open>An account as the ledger state stores it.\<close>

definition accountJson :: "int \<Rightarrow> int \<Rightarrow> json" where
  "accountJson balance nonce = JObj [(''balance'', JNum balance), (''nonce'', JNum nonce)]"




section \<open>Properties\<close>

subsection \<open>Values and their rendering\<close>

lemma showInt_1: "showInt 1 = ''1''"
  by (simp add: showInt_def showNat.simps digitChar_def)

lemma showInt_30: "showInt 30 = ''30''"
  by (simp add: showInt_def showNat.simps digitChar_def)

lemma safeInteger_numeral [simp]:
  "safeInteger 0" "safeInteger 1" "safeInteger 3" "safeInteger 4" "safeInteger 5"
  "safeInteger 7" "safeInteger 30"
  by (simp_all add: safeInteger_def)

lemma numberString_safe: "safeInteger n \<Longrightarrow> numberString rt n = showInt n"
  by (simp add: numberString_def)

lemma hex_length: "length (hex w) = 64"
  by (simp add: hex_def)

lemma hex_nonempty: "hex w \<noteq> []"
  using hex_length [of w] by auto

lemma signedData_AB301:
  "signedData rt (Some (JStr ''A'')) (Some (JStr ''B'')) (Some (JNum 30)) (Some (JNum 1)) =
     Inr ''AB301''"
  by (simp add: signedData_def numberString_safe showInt_1 showInt_30)

lemma falsy_cases:
  "falsy x =
     (x = None \<or> x = Some JNull \<or> x = Some (JBool False) \<or> x = Some (JNum 0) \<or>
      x = Some (JStr []))"
proof (cases x)
  case None
  then show ?thesis by (simp add: falsy_def)
next
  case (Some v)
  then show ?thesis by (cases v) (simp_all add: falsy_def)
qed

lemma verifySignature_signedBody:
  "verifySignature rt (Some (JStr s)) (Some (JStr r)) (Some (JNum a)) (Some (JNum m))
     (Some (JStr (hex (sha256 rt (s @ r @ numberString rt a @ numberString rt m))))) = Inr True"
  by (simp add: verifySignature_def signedData_def)

subsection \<open>The functions on a well-formed ledger and mempool\<close>

lemma loadBlockchainState_wellformed:
  "stateFile w = Some (Wellformed v) \<Longrightarrow> loadBlockchainState w = (Inr v, w)"
  by (simp add: loadBlockchainState_def ensureFileExists_def)

lemma verifyNonce_unknown:
  assumes "stateFile w = Some (Wellformed (JObj st))" and "map_of st s = None"
  shows "verifyNonce rt w (Some (JStr s)) nonce = (Inr False, w)"
  using assms
  by (simp add: verifyNonce_def loadBlockchainState_wellformed getProperty_def)

lemma verifyNonce_account:
  assumes "stateFile w = Some (Wellformed (JObj st))"
    and "map_of st s = Some (JObj account)"
    and "map_of account ''nonce'' = Some (JNum n)"
    and "safeInteger n"
  shows "verifyNonce rt w (Some (JStr s)) (Some (JNum m)) = (Inr (m = n + 1), w)"
  using assms
  by (simp add: verifyNonce_def loadBlockchainState_wellformed getProperty_def)

lemma addToMempool_array:
  assumes "mempoolFile w = Some (Wellformed (JArr mempool))" and "mempoolWritable w"
  shows "addToMempool w transaction =
           (Inr True, w\<lparr>mempoolFile := Some (Wellformed (JArr (mempool @ [transaction])))\<rparr>)"
  using assms by (simp add: addToMempool_def ensureFileExists_def writeFileSync_def)

lemma isMempoolFull_array:
  assumes "mempoolFile w = Some (Wellformed (JArr mempool))"
  shows "isMempoolFull rt w = (Inr (length mempool > 8), w)"
  using assms by (simp add: isMempoolFull_def ensureFileExists_def)

lemma validAgainst_nonce:
  assumes "validAgainst st (s, r, a, m)"
  obtains account where "map_of st s = Some (JObj account)"
    and "map_of account ''nonce'' = Some (JNum (m - 1))"
    and "safeInteger (m - 1)"
  using assms by (auto split: option.splits json.splits)

text \<open>
  A valid transfer of safe integers, signed with the digest of its fields, is admitted while the mempool
  holds fewer than eight entries: it is broadcast, appended to the mempool file and
  answered with 200. Nothing here reads the balance of the sender.
\<close>

lemma submitTxn_accepts:
  assumes st: "stateFile w = Some (Wellformed (JObj st))"
    and valid: "validAgainst st (s, r, a, m)"
    and mp: "mempoolFile w = Some (Wellformed (JArr mempool))"
    and wr: "mempoolWritable w"
    and room: "length mempool < 8"
  shows "submitTxn rt w (Some (JStr s)) (Some (JStr r)) (Some (JNum a)) (Some (JNum m))
           (Some (JStr (hex (sha256 rt (s @ r @ numberString rt a @ numberString rt m))))) =
         (accepted rt (s, r, a, m),
          w\<lparr>mempoolFile := Some (Wellformed (JArr (mempool @ [transactionOf rt (s, r, a, m)]))),
            calls := calls w @ [BroadcastTransaction (transactionOf rt (s, r, a, m))]\<rparr>)"
proof -
  from valid obtain account where acc: "map_of st s = Some (JObj account)"
    and non: "map_of account ''nonce'' = Some (JNum (m - 1))"
    and safe: "safeInteger (m - 1)"
    by (rule validAgainst_nonce)
  have nonce: "verifyNonce rt w (Some (JStr s)) (Some (JNum m)) = (Inr True, w)"
    using verifyNonce_account [OF st acc non safe, of rt m] by simp
  show ?thesis
    using valid mp wr room
    by (simp add: submitTxn_def falsy_def hex_nonempty verifySignature_signedBody nonce
        broadcastTransaction_def addToMempool_array isMempoolFull_array accepted_def Let_def)
qed

text \<open>
  With eight entries or more in the mempool the same transfer is appended too, the test
  \<^verbatim>\<open>mempool.length > 8\<close> then holds, and the handler throws at \<^verbatim>\<open>executeMempool()\<close>: no
  block is made and the mempool file keeps every entry.
\<close>

lemma submitTxn_full_throws:
  assumes st: "stateFile w = Some (Wellformed (JObj st))"
    and valid: "validAgainst st (s, r, a, m)"
    and mp: "mempoolFile w = Some (Wellformed (JArr mempool))"
    and wr: "mempoolWritable w"
    and full: "8 \<le> length mempool"
  shows "submitTxn rt w (Some (JStr s)) (Some (JStr r)) (Some (JNum a)) (Some (JNum m))
           (Some (JStr (hex (sha256 rt (s @ r @ numberString rt a @ numberString rt m))))) =
         (Inl (ReferenceError ''executeMempool''),
          w\<lparr>mempoolFile := Some (Wellformed (JArr (mempool @ [transactionOf rt (s, r, a, m)]))),
            calls := calls w @ [BroadcastTransaction (transactionOf rt (s, r, a, m))]\<rparr>)"
proof -
  from valid obtain account where acc: "map_of st s = Some (JObj account)"
    and non: "map_of account ''nonce'' = Some (JNum (m - 1))"
    and safe: "safeInteger (m - 1)"
    by (rule validAgainst_nonce)
  have nonce: "verifyNonce rt w (Some (JStr s)) (Some (JNum m)) = (Inr True, w)"
    using verifyNonce_account [OF st acc non safe, of rt m] by simp
  show ?thesis
    using valid mp wr full
    by (simp add: submitTxn_def falsy_def hex_nonempty verifySignature_signedBody nonce
        broadcastTransaction_def addToMempool_array isMempoolFull_array Let_def)
qed

text \<open>
  Valid transfers submitted in succession are all admitted, in the order of submission, as
  long as the mempool ends with at most eight entries: the ledger state is never written,
  so a transfer valid at the start stays valid, a repeated one included.
\<close>

lemma submitAll_accepts:
  assumes "stateFile w = Some (Wellformed (JObj st))"
    and "mempoolFile w = Some (Wellformed (JArr mempool))"
    and "mempoolWritable w"
    and "list_all (validAgainst st) txs"
    and "length mempool + length txs \<le> 8"
  shows "submitAll rt w (map (signedBody rt) txs) =
           (map (accepted rt) txs,
            w\<lparr>mempoolFile := Some (Wellformed (JArr (mempool @ map (transactionOf rt) txs))),
              calls := calls w @ map (\<lambda>t. BroadcastTransaction (transactionOf rt t)) txs\<rparr>)"
  using assms
proof (induction txs arbitrary: w mempool)
  case Nil
  then show ?case by simp
next
  case (Cons t txs)
  obtain s r a m where t: "t = (s, r, a, m)" by (cases t) auto
  let ?w' = "w\<lparr>mempoolFile := Some (Wellformed (JArr (mempool @ [transactionOf rt t]))),
            calls := calls w @ [BroadcastTransaction (transactionOf rt t)]\<rparr>"
  have step: "submitTxn rt w (Some (JStr s)) (Some (JStr r)) (Some (JNum a)) (Some (JNum m))
           (Some (JStr (hex (sha256 rt (s @ r @ numberString rt a @ numberString rt m))))) =
           (accepted rt t, ?w')"
    using Cons.prems submitTxn_accepts [of w st s r a m mempool rt] by (simp add: t)
  have rest: "submitAll rt ?w' (map (signedBody rt) txs) =
           (map (accepted rt) txs,
            ?w'\<lparr>mempoolFile :=
                  Some (Wellformed (JArr ((mempool @ [transactionOf rt t]) @ map (transactionOf rt) txs))),
              calls := calls ?w' @ map (\<lambda>t. BroadcastTransaction (transactionOf rt t)) txs\<rparr>)"
    using Cons.prems by (intro Cons.IH) simp_all
  show ?case
    using step rest by (simp add: t)
qed

lemma nodeExists_nonempty: "nodeExists peerNodes public_key = (peerNodes \<noteq> [])"
  by (cases peerNodes) (simp_all add: nodeExists_def)

subsection \<open>Numbers outside the safe integers\<close>

text \<open>
  Where the runtime renders \<^verbatim>\<open>1e21\<close> as \<^verbatim>\<open>1e+21\<close>, the signed text of an amount of that size is
  the exponent form; where it rounds \<^verbatim>\<open>2**53 + 1\<close> to \<^verbatim>\<open>2**53\<close>, an account whose nonce is
  \<^verbatim>\<open>2**53\<close> passes the nonce check with that same nonce. The theorems on transfers below are
  stated for safe integers, where neither happens.
\<close>

lemma verifySignature_exponent_text:
  assumes "numberText rt (10 ^ 21) = ''1e+21''"
  shows "verifySignature rt (Some (JStr ''A'')) (Some (JStr ''B'')) (Some (JNum (10 ^ 21)))
           (Some (JNum 1)) (Some (JStr (hex (sha256 rt ''AB1e+211'')))) = Inr True"
  using assms
  by (simp add: verifySignature_def signedData_def numberString_def safeInteger_def showInt_1)

lemma verifyNonce_rounded_sum:
  assumes "stateFile w = Some (Wellformed (JObj st))"
    and "map_of st s = Some (JObj account)"
    and "map_of account ''nonce'' = Some (JNum (2 ^ 53))"
    and "addOne rt (2 ^ 53) = 2 ^ 53"
  shows "verifyNonce rt w (Some (JStr s)) (Some (JNum (2 ^ 53))) = (Inr True, w)"
  using assms
  by (simp add: verifyNonce_def loadBlockchainState_wellformed getProperty_def safeInteger_def)

subsection \<open>Transaction signatures\<close>

text \<open>
  C1, as the claim states it, fails: the value \<^verbatim>\<open>verifySignature\<close> accepts is computed from
  the public fields alone. For the transaction of sender \<^verbatim>\<open>"A"\<close>, recipient \<^verbatim>\<open>"B"\<close>, amount
  30 and nonce 1 the signed text is \<^verbatim>\<open>AB301\<close>, and the hexadecimal SHA-256 digest of that
  text is accepted as the signature, whatever digest the runtime computes; no key takes part.
\<close>

theorem verifySignature_public_digest_counterexample:
  "\<forall>rt. verifySignature rt (Some (JStr ''A'')) (Some (JStr ''B'')) (Some (JNum 30))
          (Some (JNum 1)) (Some (JStr (hex (sha256 rt ''AB301'')))) = Inr True"
  by (simp add: verifySignature_def signedData_AB301)

text \<open>
  C1, amended: \<^verbatim>\<open>verifySignature\<close> returns true exactly when the conversion of the four
  fields to text succeeds and \<open>sign\<close> is the string \<open>publicDigest\<close> computes from them, the
  hexadecimal SHA-256 digest of the concatenation of sender, recipient, amount and nonce.
  The concatenation is not a canonical serialization: moving characters from the end of the
  sender to the start of the recipient changes neither the signed text nor the verdict.
\<close>

theorem verifySignature_is_digest_equality:
  "(verifySignature rt sender recipient amt nonce sign = Inr True) =
     (publicDigest rt sender recipient amt nonce \<noteq> None \<and>
      sign = publicDigest rt sender recipient amt nonce) \<and>
   verifySignature rt (Some (JStr (s @ x))) (Some (JStr r)) amt nonce sign =
     verifySignature rt (Some (JStr s)) (Some (JStr (x @ r))) amt nonce sign"
  by (auto simp: verifySignature_def publicDigest_def signedData_def Let_def split: sum.splits)

subsection \<open>Loading the ledger state\<close>

text \<open>
  C9, as the claim states it, fails twice. A state file whose text is the well-formed JSON
  \<^verbatim>\<open>null\<close> is parsed without error and \<^verbatim>\<open>loadBlockchainState\<close> returns \<^verbatim>\<open>null\<close>, which is not a
  mapping. And when the file is absent and cannot be created, the error of the write in
  \<^verbatim>\<open>ensureFileExists\<close>, which runs before the \<^verbatim>\<open>try\<close>, reaches the caller.
\<close>

theorem loadBlockchainState_counterexample:
  "loadBlockchainState
     \<lparr>stateFile = Some (Wellformed JNull), mempoolFile = None, stateWritable = True,
      mempoolWritable = True, peerStore = [], calls = []\<rparr>
   = (Inr JNull,
      \<lparr>stateFile = Some (Wellformed JNull), mempoolFile = None, stateWritable = True,
       mempoolWritable = True, peerStore = [], calls = []\<rparr>) \<and>
   loadBlockchainState
     \<lparr>stateFile = None, mempoolFile = None, stateWritable = False,
      mempoolWritable = True, peerStore = [], calls = []\<rparr>
   = (Inl IOError,
      \<lparr>stateFile = None, mempoolFile = None, stateWritable = False,
       mempoolWritable = True, peerStore = [], calls = []\<rparr>)"
  by (simp add: loadBlockchainState_def ensureFileExists_def writeFileSync_def)

text \<open>
  C9, amended: \<^verbatim>\<open>loadBlockchainState\<close> returns the value \<^verbatim>\<open>JSON.parse\<close> gives for the text of
  the state file whenever the text parses (a mapping when the text is a JSON object), and
  leaves the file as it is; it returns the empty mapping when the file exists and reading or
  parsing it throws (unreadable, empty or malformed); when the file is absent it creates it
  with the text \<^verbatim>\<open>{}\<close> and returns the empty mapping, unless the file cannot be written, the
  one case in which it throws to its caller.
\<close>

theorem loadBlockchainState_cases:
  "loadBlockchainState w =
     (case stateFile w of
        None \<Rightarrow>
          if stateWritable w then (Inr (JObj []), w\<lparr>stateFile := Some (Wellformed (JObj []))\<rparr>)
          else (Inl IOError, w)
      | Some (Wellformed v) \<Rightarrow> (Inr v, w)
      | Some other \<Rightarrow> (Inr (JObj []), w))"
  by (simp add: loadBlockchainState_def ensureFileExists_def writeFileSync_def
      split: option.splits content.splits)

text \<open>
  What the value \<^verbatim>\<open>null\<close> does to a caller: \<^verbatim>\<open>state[sender]\<close> in \<^verbatim>\<open>verifyNonce\<close> throws a
  TypeError.
\<close>

lemma verifyNonce_null_state:
  assumes "stateFile w = Some (Wellformed JNull)"
  shows "verifyNonce rt w sender nonce = (Inl TypeError, w)"
  using assms
  by (simp add: verifyNonce_def loadBlockchainState_wellformed getProperty_def)

subsection \<open>Replay of a transaction\<close>

text \<open>
  C2: the claim says that a valid transaction submitted twice in succession, with no block
  between, is accepted the first time and rejected with InvalidNonce the second time. The
  code checks the nonce against the ledger state only, which no submission writes: for
  every valid transfer \<open>t\<close> (its amount and nonce safe integers) and every mempool with room
  for two more entries, both submissions are answered with 200 and the mempool file ends
  with \<open>t\<close> in it twice.
\<close>

theorem submitTxn_replay_admitted:
  assumes "stateFile w = Some (Wellformed (JObj st))"
    and "validAgainst st t"
    and "mempoolFile w = Some (Wellformed (JArr mempool))"
    and "mempoolWritable w"
    and "length mempool + 2 \<le> 8"
  shows "submitAll rt w [signedBody rt t, signedBody rt t] =
           ([accepted rt t, accepted rt t],
            w\<lparr>mempoolFile :=
                 Some (Wellformed (JArr (mempool @ [transactionOf rt t, transactionOf rt t]))),
              calls := calls w @ [BroadcastTransaction (transactionOf rt t),
                                  BroadcastTransaction (transactionOf rt t)]\<rparr>)"
  using submitAll_accepts [of w st mempool "[t, t]" rt] assms by simp

text \<open>
  The failing input of C2: account A with balance 100 and nonce 0, an empty mempool, and the
  transfer of 30 from A to B with nonce 1, submitted twice.
\<close>

theorem submitTxn_replay_admitted_witness:
  "\<forall>rt. submitAll rt (nodeWith [(''A'', accountJson 100 0)] [])
          [signedBody rt (''A'', ''B'', 30, 1), signedBody rt (''A'', ''B'', 30, 1)] =
        ([accepted rt (''A'', ''B'', 30, 1), accepted rt (''A'', ''B'', 30, 1)],
         (nodeWith [(''A'', accountJson 100 0)]
            [transactionOf rt (''A'', ''B'', 30, 1), transactionOf rt (''A'', ''B'', 30, 1)])
         \<lparr>calls := [BroadcastTransaction (transactionOf rt (''A'', ''B'', 30, 1)),
                    BroadcastTransaction (transactionOf rt (''A'', ''B'', 30, 1))]\<rparr>)"
proof
  fix rt
  show "submitAll rt (nodeWith [(''A'', accountJson 100 0)] [])
          [signedBody rt (''A'', ''B'', 30, 1), signedBody rt (''A'', ''B'', 30, 1)] =
        ([accepted rt (''A'', ''B'', 30, 1), accepted rt (''A'', ''B'', 30, 1)],
         (nodeWith [(''A'', accountJson 100 0)]
            [transactionOf rt (''A'', ''B'', 30, 1), transactionOf rt (''A'', ''B'', 30, 1)])
         \<lparr>calls := [BroadcastTransaction (transactionOf rt (''A'', ''B'', 30, 1)),
                    BroadcastTransaction (transactionOf rt (''A'', ''B'', 30, 1))]\<rparr>)"
    using submitTxn_replay_admitted [of "nodeWith [(''A'', accountJson 100 0)] []"
        "[(''A'', accountJson 100 0)]" "(''A'', ''B'', 30, 1)" "[]" rt]
    by (simp add: nodeWith_def accountJson_def)
qed

subsection \<open>The balance of the sender\<close>

text \<open>
  C3, as the claim states it, fails: account A holds a balance of 10 and sends 30 to B with
  the next nonce and the digest of the fields as signature. The transaction is answered
  with 200 and stands in the mempool file; nothing is rejected as InsufficientFunds.
\<close>

theorem submitTxn_insufficient_funds_counterexample:
  "\<forall>rt. submitTxn rt (nodeWith [(''A'', accountJson 10 0)] [])
          (Some (JStr ''A'')) (Some (JStr ''B'')) (Some (JNum 30)) (Some (JNum 1))
          (Some (JStr (hex (sha256 rt ''AB301'')))) =
        (Inr (Response 200
           (JObj [(''message'', JStr ''Transaction submitted successfully''),
                  (''transaction'',
                   JObj [(''sender'', JStr ''A''), (''recipient'', JStr ''B''),
                         (''amt'', JNum 30), (''nonce'', JNum 1),
                         (''sign'', JStr (hex (sha256 rt ''AB301'')))])])),
         (nodeWith [(''A'', accountJson 10 0)]
            [JObj [(''sender'', JStr ''A''), (''recipient'', JStr ''B''),
                   (''amt'', JNum 30), (''nonce'', JNum 1),
                   (''sign'', JStr (hex (sha256 rt ''AB301'')))]])
         \<lparr>calls := [BroadcastTransaction
                      (JObj [(''sender'', JStr ''A''), (''recipient'', JStr ''B''),
                             (''amt'', JNum 30), (''nonce'', JNum 1),
                             (''sign'', JStr (hex (sha256 rt ''AB301'')))])]\<rparr>)"
proof
  fix rt
  show "submitTxn rt (nodeWith [(''A'', accountJson 10 0)] [])
          (Some (JStr ''A'')) (Some (JStr ''B'')) (Some (JNum 30)) (Some (JNum 1))
          (Some (JStr (hex (sha256 rt ''AB301'')))) =
        (Inr (Response 200
           (JObj [(''message'', JStr ''Transaction submitted successfully''),
                  (''transaction'',
                   JObj [(''sender'', JStr ''A''), (''recipient'', JStr ''B''),
                         (''amt'', JNum 30), (''nonce'', JNum 1),
                         (''sign'', JStr (hex (sha256 rt ''AB301'')))])])),
         (nodeWith [(''A'', accountJson 10 0)]
            [JObj [(''sender'', JStr ''A''), (''recipient'', JStr ''B''),
                   (''amt'', JNum 30), (''nonce'', JNum 1),
                   (''sign'', JStr (hex (sha256 rt ''AB301'')))]])
         \<lparr>calls := [BroadcastTransaction
                      (JObj [(''sender'', JStr ''A''), (''recipient'', JStr ''B''),
                             (''amt'', JNum 30), (''nonce'', JNum 1),
                             (''sign'', JStr (hex (sha256 rt ''AB301'')))])]\<rparr>)"
    using submitTxn_accepts [of "nodeWith [(''A'', accountJson 10 0)] []"
        "[(''A'', accountJson 10 0)]" "''A''" "''B''" 30 1 "[]" rt]
    by (simp add: nodeWith_def accountJson_def accepted_def numberString_safe
        showInt_1 showInt_30)
qed

text \<open>
  C3, amended: \<^verbatim>\<open>submitTxn\<close> makes no balance check. A transaction whose sender holds a
  balance strictly less than the amount, with truthy fields, the digest of its fields as
  signature and the nonce of the account plus one (amount and nonces safe integers), is
  admitted to the mempool and answered with 200 while the mempool holds fewer than eight
  entries.
\<close>

theorem submitTxn_ignores_balance:
  assumes "stateFile w = Some (Wellformed (JObj st))"
    and "map_of st s = Some (JObj account)"
    and "map_of account ''balance'' = Some (JNum b)"
    and "b < a"
    and "map_of account ''nonce'' = Some (JNum n)"
    and "s \<noteq> []" and "r \<noteq> []" and "a \<noteq> 0" and "n + 1 \<noteq> 0"
    and "safeInteger a" and "safeInteger n" and "safeInteger (n + 1)"
    and "mempoolFile w = Some (Wellformed (JArr mempool))"
    and "mempoolWritable w"
    and "length mempool < 8"
  shows "submitTxn rt w (Some (JStr s)) (Some (JStr r)) (Some (JNum a)) (Some (JNum (n + 1)))
           (Some (JStr (hex (sha256 rt (s @ r @ showInt a @ showInt (n + 1)))))) =
         (accepted rt (s, r, a, n + 1),
          w\<lparr>mempoolFile :=
               Some (Wellformed (JArr (mempool @ [transactionOf rt (s, r, a, n + 1)]))),
            calls := calls w @ [BroadcastTransaction (transactionOf rt (s, r, a, n + 1))]\<rparr>)"
proof -
  have valid: "validAgainst st (s, r, a, n + 1)"
    using assms(2,5,6,7,8,9,10,11,12) by simp
  have decimal: "numberString rt a = showInt a" "numberString rt (n + 1) = showInt (n + 1)"
    using assms(10,12) by (simp_all add: numberString_safe)
  show ?thesis
    using submitTxn_accepts [OF assms(1) valid assms(13,14,15), of rt]
    by (simp only: decimal)
qed

theorem submitTxn_ignores_balance_witness:
  "\<forall>rt. submitTxn rt (nodeWith [(''C'', accountJson 0 4)] [])
          (Some (JStr ''C'')) (Some (JStr ''D'')) (Some (JNum 7)) (Some (JNum 5))
          (Some (JStr (hex (sha256 rt (''C'' @ ''D'' @ showInt 7 @ showInt 5))))) =
        (accepted rt (''C'', ''D'', 7, 5),
         (nodeWith [(''C'', accountJson 0 4)] [transactionOf rt (''C'', ''D'', 7, 5)])
         \<lparr>calls := [BroadcastTransaction (transactionOf rt (''C'', ''D'', 7, 5))]\<rparr>)"
proof
  fix rt
  show "submitTxn rt (nodeWith [(''C'', accountJson 0 4)] [])
          (Some (JStr ''C'')) (Some (JStr ''D'')) (Some (JNum 7)) (Some (JNum 5))
          (Some (JStr (hex (sha256 rt (''C'' @ ''D'' @ showInt 7 @ showInt 5))))) =
        (accepted rt (''C'', ''D'', 7, 5),
         (nodeWith [(''C'', accountJson 0 4)] [transactionOf rt (''C'', ''D'', 7, 5)])
         \<lparr>calls := [BroadcastTransaction (transactionOf rt (''C'', ''D'', 7, 5))]\<rparr>)"
    using submitTxn_ignores_balance [of "nodeWith [(''C'', accountJson 0 4)] []"
        "[(''C'', accountJson 0 4)]" "''C''" "[(''balance'', JNum 0), (''nonce'', JNum 4)]"
        0 7 4 "''D''" "[]" rt]
    by (simp add: nodeWith_def accountJson_def)
qed

subsection \<open>The capacity of the mempool\<close>




subsection \<open>The failure modes of the nonce check\<close>

lemma submitTxn_invalid_nonce:
  assumes "s \<noteq> []" and "r \<noteq> []" and "a \<noteq> 0" and "m \<noteq> 0"
    and "verifyNonce rt w (Some (JStr s)) (Some (JNum m)) = (Inr False, w')"
  shows "submitTxn rt w (Some (JStr s)) (Some (JStr r)) (Some (JNum a)) (Some (JNum m))
           (Some (JStr (hex (sha256 rt (s @ r @ numberString rt a @ numberString rt m))))) =
         (Inr (Response 400 (errorBody ''Invalid nonce'')), w')"
  using assms
  by (simp add: submitTxn_def falsy_def hex_nonempty verifySignature_signedBody)

text \<open>
  C6, as the claim states it, fails: the ledger holds account A alone, with nonce 0. A
  signed transaction from the unknown sender Z gets the answer 400 \<^verbatim>\<open>Invalid nonce\<close>, the
  very answer a transaction from A with the wrong nonce 5 gets: no UnknownSender result
  exists, and the two failures are not told apart.
\<close>

theorem submitTxn_unknown_sender_counterexample:
  "\<forall>rt. submitTxn rt (nodeWith [(''A'', accountJson 100 0)] [])
          (Some (JStr ''Z'')) (Some (JStr ''B'')) (Some (JNum 30)) (Some (JNum 1))
          (Some (JStr (hex (sha256 rt ''ZB301'')))) =
        (Inr (Response 400 (errorBody ''Invalid nonce'')),
         nodeWith [(''A'', accountJson 100 0)] []) \<and>
        submitTxn rt (nodeWith [(''A'', accountJson 100 0)] [])
          (Some (JStr ''A'')) (Some (JStr ''B'')) (Some (JNum 30)) (Some (JNum 5))
          (Some (JStr (hex (sha256 rt ''AB305'')))) =
        (Inr (Response 400 (errorBody ''Invalid nonce'')),
         nodeWith [(''A'', accountJson 100 0)] [])"
proof (intro allI conjI)
  fix rt
  have unknown: "verifyNonce rt (nodeWith [(''A'', accountJson 100 0)] []) (Some (JStr ''Z''))
      (Some (JNum 1)) = (Inr False, nodeWith [(''A'', accountJson 100 0)] [])"
    by (rule verifyNonce_unknown [where st = "[(''A'', accountJson 100 0)]"])
      (simp_all add: nodeWith_def)
  show "submitTxn rt (nodeWith [(''A'', accountJson 100 0)] [])
          (Some (JStr ''Z'')) (Some (JStr ''B'')) (Some (JNum 30)) (Some (JNum 1))
          (Some (JStr (hex (sha256 rt ''ZB301'')))) =
        (Inr (Response 400 (errorBody ''Invalid nonce'')),
         nodeWith [(''A'', accountJson 100 0)] [])"
    using submitTxn_invalid_nonce [OF _ _ _ _ unknown, of "''B''" 30]
    by (simp add: numberString_safe showInt_1 showInt_30)
  have five: "showInt 5 = ''5''"
    by (simp add: showInt_def showNat.simps digitChar_def)
  have wrong: "verifyNonce rt (nodeWith [(''A'', accountJson 100 0)] []) (Some (JStr ''A''))
      (Some (JNum 5)) = (Inr False, nodeWith [(''A'', accountJson 100 0)] [])"
    using verifyNonce_account [where st = "[(''A'', accountJson 100 0)]" and s = "''A''"
        and account = "[(''balance'', JNum 100), (''nonce'', JNum 0)]" and n = 0 and m = 5
        and w = "nodeWith [(''A'', accountJson 100 0)] []" and rt = rt]
    by (simp add: nodeWith_def accountJson_def)
  show "submitTxn rt (nodeWith [(''A'', accountJson 100 0)] [])
          (Some (JStr ''A'')) (Some (JStr ''B'')) (Some (JNum 30)) (Some (JNum 5))
          (Some (JStr (hex (sha256 rt ''AB305'')))) =
        (Inr (Response 400 (errorBody ''Invalid nonce'')),
         nodeWith [(''A'', accountJson 100 0)] [])"
    using submitTxn_invalid_nonce [OF _ _ _ _ wrong, of "''B''" 30]
    by (simp add: numberString_safe five showInt_30)
qed

text \<open>
  C6, amended: nonce validation has a single failure result. For a transaction with truthy
  fields, its amount and nonce safe integers, that carries the digest of its fields as
  signature, against a ledger state that is a mapping: when the sender has no entry in the
  ledger, and also when the sender's account holds the safe integer \<open>n\<close> as nonce and the
  nonce of the transaction differs from \<open>n + 1\<close>, the answer is 400 \<^verbatim>\<open>Invalid nonce\<close> and
  nothing is written; when the nonce of the transaction equals \<open>n + 1\<close> the nonce check
  passes.
\<close>

theorem submitTxn_nonce_failures_coincide:
  assumes "stateFile w = Some (Wellformed (JObj st))"
    and "s \<noteq> []" and "r \<noteq> []" and "a \<noteq> 0" and "m \<noteq> 0"
    and "safeInteger a" and "safeInteger m"
  shows "(map_of st s = None \<longrightarrow>
            submitTxn rt w (Some (JStr s)) (Some (JStr r)) (Some (JNum a)) (Some (JNum m))
              (Some (JStr (hex (sha256 rt (s @ r @ showInt a @ showInt m))))) =
            (Inr (Response 400 (errorBody ''Invalid nonce'')), w)) \<and>
         (map_of st s = Some (JObj account) \<and> map_of account ''nonce'' = Some (JNum n) \<and>
            safeInteger n \<and> m \<noteq> n + 1 \<longrightarrow>
            submitTxn rt w (Some (JStr s)) (Some (JStr r)) (Some (JNum a)) (Some (JNum m))
              (Some (JStr (hex (sha256 rt (s @ r @ showInt a @ showInt m))))) =
            (Inr (Response 400 (errorBody ''Invalid nonce'')), w)) \<and>
         (map_of st s = Some (JObj account) \<and> map_of account ''nonce'' = Some (JNum n) \<and>
            safeInteger n \<and> m = n + 1 \<longrightarrow>
            verifyNonce rt w (Some (JStr s)) (Some (JNum m)) = (Inr True, w))"
proof (intro conjI impI)
  have decimal: "numberString rt a = showInt a" "numberString rt m = showInt m"
    using assms(6,7) by (simp_all add: numberString_safe)
  have refused: "submitTxn rt w (Some (JStr s)) (Some (JStr r)) (Some (JNum a)) (Some (JNum m))
              (Some (JStr (hex (sha256 rt (s @ r @ showInt a @ showInt m))))) =
            (Inr (Response 400 (errorBody ''Invalid nonce'')), w)"
    if "verifyNonce rt w (Some (JStr s)) (Some (JNum m)) = (Inr False, w)"
    using submitTxn_invalid_nonce [OF assms(2-5) that] by (simp only: decimal)
  {
    assume "map_of st s = None"
    then have "verifyNonce rt w (Some (JStr s)) (Some (JNum m)) = (Inr False, w)"
      by (rule verifyNonce_unknown [OF assms(1)])
    then show "submitTxn rt w (Some (JStr s)) (Some (JStr r)) (Some (JNum a)) (Some (JNum m))
              (Some (JStr (hex (sha256 rt (s @ r @ showInt a @ showInt m))))) =
            (Inr (Response 400 (errorBody ''Invalid nonce'')), w)"
      by (rule refused)
  next
    assume known: "map_of st s = Some (JObj account) \<and>
      map_of account ''nonce'' = Some (JNum n) \<and> safeInteger n \<and> m \<noteq> n + 1"
    then have "verifyNonce rt w (Some (JStr s)) (Some (JNum m)) = (Inr False, w)"
      using verifyNonce_account [OF assms(1), of s account n rt m] by simp
    then show "submitTxn rt w (Some (JStr s)) (Some (JStr r)) (Some (JNum a)) (Some (JNum m))
              (Some (JStr (hex (sha256 rt (s @ r @ showInt a @ showInt m))))) =
            (Inr (Response 400 (errorBody ''Invalid nonce'')), w)"
      by (rule refused)
  next
    assume "map_of st s = Some (JObj account) \<and>
      map_of account ''nonce'' = Some (JNum n) \<and> safeInteger n \<and> m = n + 1"
    then show "verifyNonce rt w (Some (JStr s)) (Some (JNum m)) = (Inr True, w)"
      using verifyNonce_account [OF assms(1), of s account n rt m] by simp
  }
qed

theorem submitTxn_nonce_failures_coincide_witness:
  "\<forall>rt. submitTxn rt (nodeWith [(''A'', accountJson 100 3)] [])
          (Some (JStr ''Q'')) (Some (JStr ''B'')) (Some (JNum 30)) (Some (JNum 4))
          (Some (JStr (hex (sha256 rt (''Q'' @ ''B'' @ showInt 30 @ showInt 4))))) =
        (Inr (Response 400 (errorBody ''Invalid nonce'')),
         nodeWith [(''A'', accountJson 100 3)] []) \<and>
        submitTxn rt (nodeWith [(''A'', accountJson 100 3)] [])
          (Some (JStr ''A'')) (Some (JStr ''B'')) (Some (JNum 30)) (Some (JNum 3))
          (Some (JStr (hex (sha256 rt (''A'' @ ''B'' @ showInt 30 @ showInt 3))))) =
        (Inr (Response 400 (errorBody ''Invalid nonce'')),
         nodeWith [(''A'', accountJson 100 3)] []) \<and>
        verifyNonce rt (nodeWith [(''A'', accountJson 100 3)] []) (Some (JStr ''A''))
          (Some (JNum 4)) =
        (Inr True, nodeWith [(''A'', accountJson 100 3)] [])"
proof
  fix rt
  show "submitTxn rt (nodeWith [(''A'', accountJson 100 3)] [])
          (Some (JStr ''Q'')) (Some (JStr ''B'')) (Some (JNum 30)) (Some (JNum 4))
          (Some (JStr (hex (sha256 rt (''Q'' @ ''B'' @ showInt 30 @ showInt 4))))) =
        (Inr (Response 400 (errorBody ''Invalid nonce'')),
         nodeWith [(''A'', accountJson 100 3)] []) \<and>
        submitTxn rt (nodeWith [(''A'', accountJson 100 3)] [])
          (Some (JStr ''A'')) (Some (JStr ''B'')) (Some (JNum 30)) (Some (JNum 3))
          (Some (JStr (hex (sha256 rt (''A'' @ ''B'' @ showInt 30 @ showInt 3))))) =
        (Inr (Response 400 (errorBody ''Invalid nonce'')),
         nodeWith [(''A'', accountJson 100 3)] []) \<and>
        verifyNonce rt (nodeWith [(''A'', accountJson 100 3)] []) (Some (JStr ''A''))
          (Some (JNum 4)) =
        (Inr True, nodeWith [(''A'', accountJson 100 3)] [])"
    using submitTxn_nonce_failures_coincide [of "nodeWith [(''A'', accountJson 100 3)] []"
        "[(''A'', accountJson 100 3)]" "''Q''" "''B''" 30 4 rt
        "[(''balance'', JNum 100), (''nonce'', JNum 3)]" 3]
      submitTxn_nonce_failures_coincide [of "nodeWith [(''A'', accountJson 100 3)] []"
        "[(''A'', accountJson 100 3)]" "''A''" "''B''" 30 3 rt
        "[(''balance'', JNum 100), (''nonce'', JNum 3)]" 3]
      submitTxn_nonce_failures_coincide [of "nodeWith [(''A'', accountJson 100 3)] []"
        "[(''A'', accountJson 100 3)]" "''A''" "''B''" 30 4 rt
        "[(''balance'', JNum 100), (''nonce'', JNum 3)]" 3]
    by (simp add: nodeWith_def accountJson_def)
qed

subsection \<open>The balance endpoint\<close>

text \<open>
  C7: the claim says that the balance endpoint answers 200 with the stored balance of the
  queried account. The code answers with what \<^verbatim>\<open>getBalanceByAddress\<close> returns, the constant
  0 of its body: for every address whose account is in the ledger state, whatever balance
  \<open>b\<close> it stores, the answer is 200 with balance 0.
\<close>

theorem checkBalanceByAdd_reports_zero:
  assumes "stateFile w = Some (Wellformed (JObj st))"
    and "map_of st address = Some (JObj account)"
    and "map_of account ''balance'' = Some (JNum b)"
  shows "checkBalanceByAdd rt w address =
           (Inr (Response 200 (JObj [(''address'', JStr address), (''balance'', JNum 0)])), w)"
  using assms
  by (simp add: checkBalanceByAdd_def loadBlockchainState_wellformed getProperty_def
      getBalanceByAddress_def)

text \<open>The failing input of C7: account A stores the balance 100; the endpoint reports 0.\<close>

theorem checkBalanceByAdd_reports_zero_witness:
  "\<forall>rt. checkBalanceByAdd rt (nodeWith [(''A'', accountJson 100 0)] []) ''A'' =
        (Inr (Response 200 (JObj [(''address'', JStr ''A''), (''balance'', JNum 0)])),
         nodeWith [(''A'', accountJson 100 0)] [])"
proof
  fix rt
  show "checkBalanceByAdd rt (nodeWith [(''A'', accountJson 100 0)] []) ''A'' =
        (Inr (Response 200 (JObj [(''address'', JStr ''A''), (''balance'', JNum 0)])),
         nodeWith [(''A'', accountJson 100 0)] [])"
    by (rule checkBalanceByAdd_reports_zero
        [where st = "[(''A'', accountJson 100 0)]"
          and account = "[(''balance'', JNum 100), (''nonce'', JNum 0)]" and b = 100])
      (simp_all add: nodeWith_def accountJson_def)
qed

text \<open>
  An address with no entry in the ledger is answered with 404, unless it is one of the
  names every object inherits from \<^verbatim>\<open>Object.prototype\<close>: \<^verbatim>\<open>state[address]\<close> then finds the
  built-in, which is truthy, and the answer is 200 with balance 0.
\<close>

lemma checkBalanceByAdd_absent:
  assumes "stateFile w = Some (Wellformed (JObj st))"
    and "map_of st address = None"
    and "address \<notin> set objectPrototype"
  shows "checkBalanceByAdd rt w address =
           (Inr (Response 404 (errorBody ''Address not found in blockchain state'')), w)"
  using assms
  by (simp add: checkBalanceByAdd_def loadBlockchainState_wellformed getProperty_def)

lemma checkBalanceByAdd_prototype_name:
  assumes "stateFile w = Some (Wellformed (JObj st))"
    and "map_of st address = None"
    and "address \<in> set objectPrototype"
  shows "checkBalanceByAdd rt w address =
           (Inr (Response 200 (JObj [(''address'', JStr address), (''balance'', JNum 0)])), w)"
  using assms
  by (simp add: checkBalanceByAdd_def loadBlockchainState_wellformed getProperty_def
      getBalanceByAddress_def)

lemma checkBalanceByAdd_constructor:
  "checkBalanceByAdd rt (nodeWith [] []) ''constructor'' =
     (Inr (Response 200 (JObj [(''address'', JStr ''constructor''), (''balance'', JNum 0)])),
      nodeWith [] [])"
  by (rule checkBalanceByAdd_prototype_name [where st = "[]"])
    (simp_all add: nodeWith_def objectPrototype_def)

subsection \<open>Registration of a peer\<close>

text \<open>
  C8: for every registration request whose signature \<^verbatim>\<open>verifyNodeSignature\<close> does not
  accept for the supplied public key, the answer is 403 \<^verbatim>\<open>Invalid signature\<close> and the node
  is left as it was: the peer directory has no new entry, and neither \<^verbatim>\<open>savePeerNodes\<close> nor
  any other collaborator has been called.
\<close>

theorem registerNode_invalid_signature:
  assumes "\<not> verifyNodeSignature co ip provided_port sign public_key"
  shows "registerNode co w ip provided_port public_key sign =
           (Inr (Response 403 (messageBody ''Invalid signature'')), w)"
  using assms by (simp add: registerNode_def)

theorem registerNode_invalid_signature_witness:
  "registerNode
     \<lparr>verifyNodeSignature = \<lambda>ip port sign key. False, pingNode = \<lambda>ip port. True\<rparr>
     ((nodeWith [] [])\<lparr>peerStore := [PeerNode ''10.0.0.1'' (Some (JNum 3000)) (Some (JStr ''K1''))]\<rparr>)
     ''10.0.0.2'' (Some (JNum 4000)) (Some (JStr ''K2'')) (Some (JStr ''forged'')) =
   (Inr (Response 403 (messageBody ''Invalid signature'')),
    (nodeWith [] [])\<lparr>peerStore := [PeerNode ''10.0.0.1'' (Some (JNum 3000)) (Some (JStr ''K1''))]\<rparr>)"
  by (rule registerNode_invalid_signature) simp

text \<open>
  C5: the claim says that registration fails as a duplicate exactly when an existing entry
  has the public key or the address and port of the candidate, and that a candidate
  matching no entry passes. In the code the right operand of \<^verbatim>\<open>||\<close> in the test is an arrow
  function, which is truthy for every entry: a candidate with an accepted signature that
  answers the probe is registered when the directory is empty, and refused with 400
  \<^verbatim>\<open>Node already exists\<close> as soon as the directory holds any entry at all, whatever the keys
  of the entry and of the candidate.
\<close>

theorem registerNode_refuses_unless_directory_empty:
  assumes "verifyNodeSignature co ip provided_port sign public_key"
    and "pingNode co ip provided_port"
  shows "registerNode co w ip provided_port public_key sign =
           (if peerStore w = [] then
              (Inr (Response 200 (messageBody ''Node registered successfully'')),
               w\<lparr>peerStore := [PeerNode ip provided_port public_key],
                 calls := calls w @
                   [SavePeerNodes [PeerNode ip provided_port public_key],
                    SyncPeerDataWithOtherNodes [PeerNode ip provided_port public_key]]\<rparr>)
            else (Inr (Response 400 (messageBody ''Node already exists'')), w))"
  using assms
  by (simp add: registerNode_def loadPeerNodes_def nodeExists_nonempty savePeerNodes_def
      syncPeerDataWithOtherNodes_def Let_def)

text \<open>
  The failing input of C5: the directory holds the peer 10.0.0.1:3000 with key K1; the
  candidate 10.0.0.2:4000 with key K2 matches it on neither key and is refused.
\<close>

theorem registerNode_refuses_unless_directory_empty_witness:
  "registerNode
     \<lparr>verifyNodeSignature = \<lambda>ip port sign key. True, pingNode = \<lambda>ip port. True\<rparr>
     ((nodeWith [] [])\<lparr>peerStore := [PeerNode ''10.0.0.1'' (Some (JNum 3000)) (Some (JStr ''K1''))]\<rparr>)
     ''10.0.0.2'' (Some (JNum 4000)) (Some (JStr ''K2'')) (Some (JStr ''signature'')) =
   (Inr (Response 400 (messageBody ''Node already exists'')),
    (nodeWith [] [])\<lparr>peerStore := [PeerNode ''10.0.0.1'' (Some (JNum 3000)) (Some (JStr ''K1''))]\<rparr>)"
  using registerNode_refuses_unless_directory_empty
    [of "\<lparr>verifyNodeSignature = \<lambda>ip port sign key. True, pingNode = \<lambda>ip port. True\<rparr>"
      "''10.0.0.2''" "Some (JNum 4000)" "Some (JStr ''signature'')" "Some (JStr ''K2'')"
      "(nodeWith [] [])\<lparr>peerStore := [PeerNode ''10.0.0.1'' (Some (JNum 3000)) (Some (JStr ''K1''))]\<rparr>"]
  by (simp add: nodeWith_def)

subsection \<open>Missing and falsy fields\<close>

text \<open>
  C10: a request to \<^verbatim>\<open>submitTxn\<close> in which one of sender, recipient, amount, nonce and
  signature is missing or falsy (\<^verbatim>\<open>null\<close>, \<^verbatim>\<open>false\<close>, 0 or the empty string) is answered with
  400 before any other check: the answer does not depend on the runtime's digest or on the
  files, and the node is left as it was. An amount of 0 and a nonce of 0 are such falsy
  values.
\<close>

theorem submitTxn_rejects_incomplete:
  assumes "x \<in> {sender, recipient, amt, nonce, sign}"
    and "x \<in> {None, Some JNull, Some (JBool False), Some (JNum 0), Some (JStr [])}"
  shows "submitTxn rt w sender recipient amt nonce sign =
           (Inr (Response 400
              (errorBody ''All fields (sender, recipient, amt, nonce, sign) are required'')), w)"
proof -
  from assms(2) have "falsy x" by (simp add: falsy_cases)
  with assms(1) have "falsy sender \<or> falsy recipient \<or> falsy amt \<or> falsy nonce \<or> falsy sign"
    by auto
  then show ?thesis by (simp add: submitTxn_def)
qed

theorem submitTxn_rejects_incomplete_witness:
  "\<forall>rt w.
     submitTxn rt w (Some (JStr ''A'')) (Some (JStr ''B'')) (Some (JNum 0)) (Some (JNum 1))
       (Some (JStr ''s'')) =
       (Inr (Response 400
          (errorBody ''All fields (sender, recipient, amt, nonce, sign) are required'')), w) \<and>
     submitTxn rt w (Some (JStr ''A'')) (Some (JStr ''B'')) (Some (JNum 30)) (Some (JNum 0))
       (Some (JStr ''s'')) =
       (Inr (Response 400
          (errorBody ''All fields (sender, recipient, amt, nonce, sign) are required'')), w) \<and>
     submitTxn rt w (Some (JStr ''A'')) (Some (JStr ''B'')) (Some (JNum 30)) (Some (JNum 1))
       None =
       (Inr (Response 400
          (errorBody ''All fields (sender, recipient, amt, nonce, sign) are required'')), w)"
  using submitTxn_rejects_incomplete [of "Some (JNum 0)" "Some (JStr ''A'')" "Some (JStr ''B'')"
      "Some (JNum 0)" "Some (JNum 1)" "Some (JStr ''s'')"]
    submitTxn_rejects_incomplete [of "Some (JNum 0)" "Some (JStr ''A'')" "Some (JStr ''B'')"
      "Some (JNum 30)" "Some (JNum 0)" "Some (JStr ''s'')"]
    submitTxn_rejects_incomplete [of None "Some (JStr ''A'')" "Some (JStr ''B'')"
      "Some (JNum 30)" "Some (JNum 1)" None]
  by simp

end
